theory Spec2Isabelle
  imports Complex_Main "HOL-Library.Word" "HOL-Library.AList" "HOL-Library.Log_Nat"
begin

unbundle bit_operations_syntax

section \<open>Python values and exceptions\<close>

text \<open>
  The parser of \<^verbatim>\<open>beacon.py\<close> works on a byte string and builds a dictionary
  of dictionaries. Bytes are 8-bit words, Python's integers are \<open>int\<close>, a dictionary is
  an association list in insertion order.

  A Python float is an IEEE-754 double. A finite float is represented by the rational
  number it denotes, so the two zeros are one value. The two ways a float arises in the
  parser are the struct code \<^verbatim>\<open>f\<close> (a binary32 number, which every double represents
  exactly) and the true division of an integer by \<^verbatim>\<open>10.0\<close>, whose result is the
  double nearest to the exact quotient (\<open>to_double\<close> below rounds as the hardware does).
\<close>

type_synonym byte = "8 word"
type_synonym bytes = "byte list"

datatype pyfloat = Finite rat | Infinity bool | NaN

datatype pyval =
    PyInt int
  | PyFloat pyfloat
  | PyBytes bytes
  | PyTuple "pyval list"
  | PyDict "(string \<times> pyval) list"

text \<open>
  The three \<^verbatim>\<open>raise TypeError(...)\<close> of the parser differ in their message only.
  \<open>StructError\<close> is \<^verbatim>\<open>struct.error\<close>; \<open>ValueError\<close> is what a tuple assignment
  of the wrong arity raises, \<open>OverflowError\<close> what the conversion of an integer beyond
  the range of the doubles raises.
\<close>

datatype pyexc = TypeError string | StructError | ValueError | IndexError | OverflowError

definition RoutingMismatch :: pyexc where
  "RoutingMismatch = TypeError ''Beacon destination does not match''"

definition LengthMismatch :: pyexc where
  "LengthMismatch = TypeError ''Length does not match beacon 0''"

definition UnsupportedType :: pyexc where
  "UnsupportedType = TypeError ''Unknown beacon type''"

definition bind :: "pyexc + 'a \<Rightarrow> ('a \<Rightarrow> pyexc + 'b) \<Rightarrow> pyexc + 'b" where
  "bind m f = (case m of Inl e \<Rightarrow> Inl e | Inr x \<Rightarrow> f x)"

section \<open>The struct module, as far as the parser uses it\<close>

text \<open>
  A format string is a byte-order character followed by format codes, each with an
  optional decimal count. The parser uses the byte orders \<^verbatim>\<open><\<close> and \<^verbatim>\<open>>\<close> (standard
  sizes, no padding) and the codes \<^verbatim>\<open>B H h I f s\<close>; the model rejects every other
  format. A count repeats a code, except for \<^verbatim>\<open>s\<close>, where it is the length of one
  byte string.
\<close>

datatype byteorder = LittleEndian | BigEndian

datatype code = U8 | U16 | S16 | U32 | F32 | Str nat

definition byteorder_of :: "char \<Rightarrow> byteorder option" where
  "byteorder_of c =
     (if c = CHR ''<'' then Some LittleEndian
      else if c = CHR ''>'' then Some BigEndian
      else None)"

definition code_of :: "char \<Rightarrow> code option" where
  "code_of c =
     (if c = CHR ''B'' then Some U8
      else if c = CHR ''H'' then Some U16
      else if c = CHR ''h'' then Some S16
      else if c = CHR ''I'' then Some U32
      else if c = CHR ''f'' then Some F32
      else None)"

definition is_digit :: "char \<Rightarrow> bool" where
  "is_digit c \<longleftrightarrow> 48 \<le> (of_char c :: nat) \<and> (of_char c :: nat) \<le> 57"

definition digit_val :: "char \<Rightarrow> nat" where
  "digit_val c = of_char c - 48"

definition count_or :: "nat \<Rightarrow> nat option \<Rightarrow> nat" where
  "count_or d cnt = (case cnt of None \<Rightarrow> d | Some n \<Rightarrow> n)"

fun parse_codes :: "nat option \<Rightarrow> string \<Rightarrow> code list option" where
  "parse_codes None [] = Some []"
| "parse_codes (Some n) [] = None"
| "parse_codes cnt (c # cs) =
     (if is_digit c then parse_codes (Some (count_or 0 cnt * 10 + digit_val c)) cs
      else if c = CHR ''s'' then
        map_option ((#) (Str (count_or 1 cnt))) (parse_codes None cs)
      else
        (case code_of c of
           None \<Rightarrow> None
         | Some k \<Rightarrow> map_option ((@) (replicate (count_or 1 cnt) k)) (parse_codes None cs)))"

definition parse_format :: "string \<Rightarrow> (byteorder \<times> code list) option" where
  "parse_format fmt =
     (case fmt of
        [] \<Rightarrow> None
      | c # cs \<Rightarrow>
          (case byteorder_of c of
             None \<Rightarrow> None
           | Some bo \<Rightarrow> map_option (Pair bo) (parse_codes None cs)))"

fun code_size :: "code \<Rightarrow> nat" where
  "code_size U8 = 1"
| "code_size U16 = 2"
| "code_size S16 = 2"
| "code_size U32 = 4"
| "code_size F32 = 4"
| "code_size (Str n) = n"

definition calcsize :: "code list \<Rightarrow> nat" where
  "calcsize cs = sum_list (map code_size cs)"

text \<open>The unsigned integer that a byte string denotes in the given byte order.\<close>

definition from_bytes :: "byteorder \<Rightarrow> bytes \<Rightarrow> int" where
  "from_bytes bo bs =
     foldl (\<lambda>acc b. acc * 256 + uint b) 0
       (case bo of BigEndian \<Rightarrow> bs | LittleEndian \<Rightarrow> rev bs)"

text \<open>Two's complement reading of an unsigned value of \<open>n\<close> bytes.\<close>

definition to_signed :: "nat \<Rightarrow> int \<Rightarrow> int" where
  "to_signed n v = (if 2 ^ (8 * n - 1) \<le> v then v - 2 ^ (8 * n) else v)"

text \<open>
  The value of the binary32 number with bit pattern \<open>v\<close>: sign bit 31, biased exponent
  in bits 23 to 30, fraction in bits 0 to 22.
\<close>

definition float_of_binary32 :: "int \<Rightarrow> pyfloat" where
  "float_of_binary32 v =
     (let s = (v div 2 ^ 31) mod 2 = 1;
          e = (v div 2 ^ 23) mod 256;
          m = v mod 2 ^ 23;
          sg = (if s then - 1 else 1 :: rat)
      in if e = 255 then (if m = 0 then Infinity s else NaN)
         else if e = 0 then Finite (sg * of_int m / 2 ^ 149)
         else if 150 \<le> e then Finite (sg * of_int (2 ^ 23 + m) * 2 ^ nat (e - 150))
         else Finite (sg * of_int (2 ^ 23 + m) / 2 ^ nat (150 - e)))"

fun unpack_one :: "byteorder \<Rightarrow> code \<Rightarrow> bytes \<Rightarrow> pyval" where
  "unpack_one bo U8 bs = PyInt (from_bytes bo bs)"
| "unpack_one bo U16 bs = PyInt (from_bytes bo bs)"
| "unpack_one bo S16 bs = PyInt (to_signed 2 (from_bytes bo bs))"
| "unpack_one bo U32 bs = PyInt (from_bytes bo bs)"
| "unpack_one bo F32 bs = PyFloat (float_of_binary32 (from_bytes bo bs))"
| "unpack_one bo (Str n) bs = PyBytes bs"

fun unpack_codes :: "byteorder \<Rightarrow> code list \<Rightarrow> bytes \<Rightarrow> pyval list" where
  "unpack_codes bo [] bs = []"
| "unpack_codes bo (c # cs) bs =
     unpack_one bo c (take (code_size c) bs) # unpack_codes bo cs (drop (code_size c) bs)"

text \<open>
  \<^verbatim>\<open>struct.unpack(fmt, buffer)\<close>: the buffer must be a byte string whose length is
  exactly the size of the format.
\<close>

definition unpack :: "string \<Rightarrow> pyval \<Rightarrow> pyexc + pyval list" where
  "unpack fmt buffer =
     (case buffer of
        PyBytes bs \<Rightarrow>
          (case parse_format fmt of
             None \<Rightarrow> Inl StructError
           | Some (bo, cs) \<Rightarrow>
               if length bs \<noteq> calcsize cs then Inl StructError
               else Inr (unpack_codes bo cs bs))
      | _ \<Rightarrow> Inl (TypeError ''a bytes-like object is required''))"

section \<open>Arithmetic on Python values\<close>

text \<open>
  Rounding a rational number to the nearest double (binary64: 53 significant bits,
  exponents from \<open>-1022\<close> to \<open>1023\<close>), ties to the even significand. \<open>floor_log2 a\<close> is
  the exponent \<open>e\<close> with \<open>2 ^ e \<le> a < 2 ^ (e + 1)\<close> of a positive \<open>a\<close>; the doubles
  of that binade, and the subnormal ones below \<open>2 ^ - 1022\<close>, are the multiples of
  \<open>ulp\<close>. A result of \<open>2 ^ 1024\<close> or more is an infinity: the rounded value
  \<open>n * ulp\<close> reaches \<open>2 ^ 1024\<close> when the exponent is beyond 1023, or is 1023 and the
  significand \<open>n\<close> was rounded up to \<open>2 ^ 53\<close>.
\<close>

definition pow2 :: "int \<Rightarrow> rat" where
  "pow2 k = (if 0 \<le> k then 2 ^ nat k else 1 / 2 ^ nat (- k))"

definition floor_log2 :: "rat \<Rightarrow> int" where
  "floor_log2 a =
     (let (p, q) = quotient_of a; d = bitlen p - bitlen q
      in if pow2 d \<le> a then d else d - 1)"

definition round_half_even :: "rat \<Rightarrow> int" where
  "round_half_even x =
     (let f = \<lfloor>x\<rfloor>; d = x - of_int f
      in if d < 1 / 2 then f
         else if 1 / 2 < d then f + 1
         else if even f then f else f + 1)"

definition to_double :: "rat \<Rightarrow> pyfloat" where
  "to_double x =
     (if x = 0 then Finite 0
      else
        (let a = \<bar>x\<bar>;
             e = max (floor_log2 a) (- 1022);
             ulp = pow2 (e - 52);
             n = round_half_even (a / ulp);
             v = of_int n * ulp
         in if 1024 \<le> e \<or> (e = 1023 \<and> 2 ^ 53 \<le> n) then Infinity (x < 0)
            else Finite (if x < 0 then - v else v)))"

text \<open>
  \<^verbatim>\<open>x / 10.0\<close>: true division by the float ten. An integer operand is converted to a
  float first; the quotient of two floats is the double nearest to the exact quotient.
\<close>

definition div_float :: "pyfloat \<Rightarrow> rat \<Rightarrow> pyfloat" where
  "div_float x d =
     (case x of Finite q \<Rightarrow> to_double (q / d) | Infinity s \<Rightarrow> Infinity s | NaN \<Rightarrow> NaN)"

definition truediv10 :: "pyval \<Rightarrow> pyexc + pyval" where
  "truediv10 v =
     (case v of
        PyInt x \<Rightarrow>
          (case to_double (of_int x) of
             Finite a \<Rightarrow> Inr (PyFloat (div_float (Finite a) 10))
           | _ \<Rightarrow> Inl OverflowError)
      | PyFloat x \<Rightarrow> Inr (PyFloat (div_float x 10))
      | _ \<Rightarrow> Inl (TypeError ''unsupported operand type(s) for /''))"

section \<open>The beacon parser\<close>

definition BEACON0_LENGTH :: nat where "BEACON0_LENGTH = 136"
definition BEACON0_SOURCE :: int where "BEACON0_SOURCE = 1"
definition BEACON0_DEST :: int where "BEACON0_DEST = 10"
definition BEACON0_DPORT :: int where "BEACON0_DPORT = 30"

text \<open>
  Lines 40 to 52: the CSP header is split off and its source, destination and destination
  port are compared with the expected ones. The result is \<^verbatim>\<open>bdata\<close>.
\<close>

definition split_csp :: "bytes \<Rightarrow> bool \<Rightarrow> pyexc + bytes" where
  "split_csp data csp =
     (if csp then
        (let hdata = take 4 data; bdata = drop 4 data in
         case unpack ''<I'' (PyBytes hdata) of
           Inl e \<Rightarrow> Inl e
         | Inr [] \<Rightarrow> Inl IndexError
         | Inr (PyInt header # _) \<Rightarrow>
             (let src = drop_bit 25 header AND 0x1f;
                  dst = drop_bit 20 header AND 0x1f;
                  dport = drop_bit 14 header AND 0x3f
              in if src \<noteq> BEACON0_SOURCE \<or> dst \<noteq> BEACON0_DEST \<or> dport \<noteq> BEACON0_DPORT
                 then Inl (TypeError ''Beacon destination does not match'')
                 else Inr bdata)
         | Inr _ \<Rightarrow> Inl (TypeError ''unsupported operand type(s) for >>''))
      else Inr data)"

text \<open>Lines 55 and 56: \<^verbatim>\<open>bdata[:-4]\<close>, which is empty when fewer than 4 bytes are left.\<close>

definition strip_crc :: "bytes \<Rightarrow> bool \<Rightarrow> bytes" where
  "strip_crc bdata crc = (if crc then take (length bdata - 4) bdata else bdata)"

text \<open>Lines 98 to 133: the EPS block.\<close>

definition eps_group :: "pyval \<Rightarrow> pyexc + pyval" where
  "eps_group eps =
     bind (unpack ''>I16H6hB'' eps) (\<lambda>vs.
       case vs of
         [eps_timestamp, eps_vboost_0, eps_vboost_1, eps_vboost_2, eps_vbatt,
          eps_curout_0, eps_curout_1, eps_curout_2, eps_curout_3, eps_curout_4,
          eps_curout_5, eps_curout_6, eps_curin_0, eps_curin_1, eps_curin_2,
          eps_cursun, eps_cursys, eps_temp_0, eps_temp_1, eps_temp_2, eps_temp_3,
          eps_temp_4, eps_temp_5, eps_battmode] \<Rightarrow>
           Inr (PyDict
             [(''timestamp'', eps_timestamp),
              (''vboost'', PyTuple [eps_vboost_0, eps_vboost_1, eps_vboost_2]),
              (''vbatt'', eps_vbatt),
              (''curout'', PyTuple [eps_curout_0, eps_curout_1, eps_curout_2, eps_curout_3,
                                   eps_curout_4, eps_curout_5, eps_curout_6]),
              (''curin'', PyTuple [eps_curin_0, eps_curin_1, eps_curin_2]),
              (''cursun'', eps_cursun),
              (''cursys'', eps_cursys),
              (''temp'', PyTuple [eps_temp_0, eps_temp_1, eps_temp_2, eps_temp_3,
                                 eps_temp_4, eps_temp_5]),
              (''battmode'', eps_battmode)])
       | _ \<Rightarrow> Inl ValueError)"

text \<open>Lines 144 to 158: the COM block.\<close>

definition com_group :: "pyval \<Rightarrow> pyexc + pyval" where
  "com_group com =
     bind (unpack ''>I5h'' com) (\<lambda>vs.
       case vs of
         [com_timestamp, com_temp_brd, com_temp_pa, com_last_rssi, com_last_rferr,
          com_bgnd_rssi] \<Rightarrow>
           bind (truediv10 com_temp_brd) (\<lambda>temp_brd.
           bind (truediv10 com_temp_pa) (\<lambda>temp_pa.
             Inr (PyDict
               [(''timestamp'', com_timestamp),
                (''temp_brd'', temp_brd),
                (''temp_pa'', temp_pa),
                (''last_rssi'', com_last_rssi),
                (''last_rferr'', com_last_rferr),
                (''bgnd_rssi'', com_bgnd_rssi)])))
       | _ \<Rightarrow> Inl ValueError)"

text \<open>Lines 169 to 183: the OBC block.\<close>

definition obc_group :: "pyval \<Rightarrow> pyexc + pyval" where
  "obc_group obc =
     bind (unpack ''>I3H2h'' obc) (\<lambda>vs.
       case vs of
         [obc_timestamp, obc_cur_gssb1, obc_cur_gssb2, obc_cur_flash, obc_temp_a,
          obc_temp_b] \<Rightarrow>
           bind (truediv10 obc_temp_a) (\<lambda>temp_a.
           bind (truediv10 obc_temp_b) (\<lambda>temp_b.
             Inr (PyDict
               [(''timestamp'', obc_timestamp),
                (''cur_gssb1'', obc_cur_gssb1),
                (''cur_gssb2'', obc_cur_gssb2),
                (''cur_flash'', obc_cur_flash),
                (''temp_a'', temp_a),
                (''temp_b '', temp_b)])))
       | _ \<Rightarrow> Inl ValueError)"

text \<open>Lines 197 to 217: the ADCS block.\<close>

definition adcs_group :: "pyval \<Rightarrow> pyexc + pyval" where
  "adcs_group adcs =
     bind (unpack ''>I6H2h'' adcs) (\<lambda>vs.
       case vs of
         [adcs_timestamp, adcs_cur_gssb1, adcs_cur_gssb2, adcs_cur_flash, adcs_cur_pwm,
          adcs_cur_gps, adcs_cur_wde, adcs_temp_a, adcs_temp_b] \<Rightarrow>
           bind (truediv10 adcs_temp_a) (\<lambda>temp_a.
           bind (truediv10 adcs_temp_b) (\<lambda>temp_b.
             Inr (PyDict
               [(''timestamp'', adcs_timestamp),
                (''cur_gssb1'', adcs_cur_gssb1),
                (''cur_gssb2'', adcs_cur_gssb2),
                (''cur_flash'', adcs_cur_flash),
                (''cur_pwm'', adcs_cur_pwm),
                (''cur_gps'', adcs_cur_gps),
                (''cur_wde'', adcs_cur_wde),
                (''temp_a'', temp_a),
                (''temp_b '', temp_b)])))
       | _ \<Rightarrow> Inl ValueError)"

text \<open>Lines 235 to 263: the ADS-B block.\<close>

definition adsb_group :: "pyval \<Rightarrow> pyexc + pyval" where
  "adsb_group adsb =
     bind (unpack ''>I7HI2f2I'' adsb) (\<lambda>vs.
       case vs of
         [adsb_timestamp, adsb_cur5v0brd, adsb_cur3v3brd, adsb_cur3v3sd, adsb_cur1v2,
          adsb_cur2v5, adsb_cur3v3fpga, adsb_cur3v3adc, adsb_last_icao, adsb_last_lat,
          adsb_last_lon, adsb_last_alt, adsb_last_time] \<Rightarrow>
           Inr (PyDict
             [(''timestamp'', adsb_timestamp),
              (''cur5v0brd'', adsb_cur5v0brd),
              (''cur3v3brd'', adsb_cur3v3brd),
              (''cur3v3sd'', adsb_cur3v3sd),
              (''cur1v2'', adsb_cur1v2),
              (''cur2v5'', adsb_cur2v5),
              (''cur3v3fpga'', adsb_cur3v3fpga),
              (''cur3v3adc'', adsb_cur3v3adc),
              (''last_icao'', adsb_last_icao),
              (''last_lat'', adsb_last_lat),
              (''last_lon'', adsb_last_lon),
              (''last_alt'', adsb_last_alt),
              (''last_time '', adsb_last_time)])
       | _ \<Rightarrow> Inl ValueError)"

text \<open>
  The object that \<^verbatim>\<open>Beacon0(data, csp, crc)\<close> constructs has the one attribute
  \<^verbatim>\<open>beacon\<close>, a dictionary that starts empty and receives the five groups in turn.
\<close>

record Beacon0 =
  beacon :: "(string \<times> pyval) list"

definition Beacon0_init :: "bytes \<Rightarrow> bool \<Rightarrow> bool \<Rightarrow> pyexc + Beacon0" where
  "Beacon0_init data csp crc =
     bind (split_csp data csp) (\<lambda>bdata0.
       let bdata = strip_crc bdata0 crc in
       if length bdata \<noteq> BEACON0_LENGTH
       then Inl (TypeError ''Length does not match beacon 0'')
       else
         bind (unpack ''<B49s14s14s20s38s'' (PyBytes bdata)) (\<lambda>vs.
           case vs of
             [btype, eps, com, obc, adcs, adsb] \<Rightarrow>
               if btype \<noteq> PyInt 0 then Inl (TypeError ''Unknown beacon type'')
               else
                 bind (eps_group eps) (\<lambda>d_eps.
                 bind (com_group com) (\<lambda>d_com.
                 bind (obc_group obc) (\<lambda>d_obc.
                 bind (adcs_group adcs) (\<lambda>d_adcs.
                 bind (adsb_group adsb) (\<lambda>d_adsb.
                   Inr \<lparr>beacon =
                     AList.update ''adsb'' d_adsb
                       (AList.update ''adcs'' d_adcs
                         (AList.update ''obc'' d_obc
                           (AList.update ''com'' d_com
                             (AList.update ''eps'' d_eps [])))) \<rparr>)))))
           | _ \<Rightarrow> Inl ValueError))"

definition fields :: "Beacon0 \<Rightarrow> pyval" where
  "fields self = PyDict (beacon self)"

text \<open>Decoding a frame: construct the object and read its fields.\<close>

definition decode :: "bytes \<Rightarrow> bool \<Rightarrow> bool \<Rightarrow> pyexc + pyval" where
  "decode data csp crc = bind (Beacon0_init data csp crc) (\<lambda>b. Inr (fields b))"

section \<open>The frame layout of the specification\<close>

text \<open>
  The specification describes the frame by offsets and widths. The readers below take a
  field from a byte string at an offset, as a machine word of the width of the field:
  \<open>word_rcat\<close> concatenates bytes with the most significant byte first.
\<close>

definition sub_bytes :: "bytes \<Rightarrow> nat \<Rightarrow> nat \<Rightarrow> bytes" where
  "sub_bytes s off n = take n (drop off s)"

definition u8_at :: "bytes \<Rightarrow> nat \<Rightarrow> int" where
  "u8_at s off = uint (s ! off)"

definition u16_be :: "bytes \<Rightarrow> nat \<Rightarrow> int" where
  "u16_be s off = uint (word_rcat (sub_bytes s off 2) :: 16 word)"

definition s16_be :: "bytes \<Rightarrow> nat \<Rightarrow> int" where
  "s16_be s off = sint (word_rcat (sub_bytes s off 2) :: 16 word)"

definition u32_be :: "bytes \<Rightarrow> nat \<Rightarrow> int" where
  "u32_be s off = uint (word_rcat (sub_bytes s off 4) :: 32 word)"

definition f32_be :: "bytes \<Rightarrow> nat \<Rightarrow> pyfloat" where
  "f32_be s off = float_of_binary32 (u32_be s off)"

text \<open>The header word: the first four bytes, least significant byte first.\<close>

definition header_word :: "bytes \<Rightarrow> 32 word" where
  "header_word data = word_rcat (rev (sub_bytes data 0 4))"

text \<open>The bits \<open>lo\<close> to \<open>hi\<close> of a word, as a number.\<close>

definition bits :: "32 word \<Rightarrow> nat \<Rightarrow> nat \<Rightarrow> nat" where
  "bits w lo hi = unat (take_bit (hi + 1 - lo) (drop_bit lo w))"

definition routing_fields :: "bytes \<Rightarrow> nat \<times> nat \<times> nat" where
  "routing_fields data =
     (bits (header_word data) 25 29, bits (header_word data) 20 24,
      bits (header_word data) 14 19)"

text \<open>What is left of the input after the configured header and trailer are removed.\<close>

definition payload :: "bytes \<Rightarrow> bool \<Rightarrow> bool \<Rightarrow> bytes" where
  "payload data csp crc =
     (let body = (if csp then drop 4 data else data)
      in if crc then take (length body - 4) body else body)"

text \<open>
  A temperature sent in tenths of a degree: the float nearest to a tenth of the raw value.
\<close>

definition tenths :: "int \<Rightarrow> pyval" where
  "tenths raw = PyFloat (to_double (of_int raw / 10))"

text \<open>
  The five field groups, each read from its own sub_bytes (sections 4.4 to 4.8 of the
  specification), under the names the parser publishes them with.
\<close>

definition power_fields :: "bytes \<Rightarrow> pyval" where
  "power_fields s =
     (let h = map (\<lambda>i. PyInt (u16_be s (4 + 2 * i))) [0..<16];
          t = map (\<lambda>i. PyInt (s16_be s (36 + 2 * i))) [0..<6]
      in PyDict
        [(''timestamp'', PyInt (u32_be s 0)),
         (''vboost'', PyTuple (take 3 h)),
         (''vbatt'', h ! 3),
         (''curout'', PyTuple (take 7 (drop 4 h))),
         (''curin'', PyTuple (take 3 (drop 11 h))),
         (''cursun'', h ! 14),
         (''cursys'', h ! 15),
         (''temp'', PyTuple t),
         (''battmode'', PyInt (u8_at s 48))])"

definition comms_fields :: "bytes \<Rightarrow> pyval" where
  "comms_fields s =
     PyDict
       [(''timestamp'', PyInt (u32_be s 0)),
        (''temp_brd'', tenths (s16_be s 4)),
        (''temp_pa'', tenths (s16_be s 6)),
        (''last_rssi'', PyInt (s16_be s 8)),
        (''last_rferr'', PyInt (s16_be s 10)),
        (''bgnd_rssi'', PyInt (s16_be s 12))]"

definition computer_fields :: "bytes \<Rightarrow> pyval" where
  "computer_fields s =
     PyDict
       [(''timestamp'', PyInt (u32_be s 0)),
        (''cur_gssb1'', PyInt (u16_be s 4)),
        (''cur_gssb2'', PyInt (u16_be s 6)),
        (''cur_flash'', PyInt (u16_be s 8)),
        (''temp_a'', tenths (s16_be s 10)),
        (''temp_b '', tenths (s16_be s 12))]"

definition attitude_fields :: "bytes \<Rightarrow> pyval" where
  "attitude_fields s =
     PyDict
       [(''timestamp'', PyInt (u32_be s 0)),
        (''cur_gssb1'', PyInt (u16_be s 4)),
        (''cur_gssb2'', PyInt (u16_be s 6)),
        (''cur_flash'', PyInt (u16_be s 8)),
        (''cur_pwm'', PyInt (u16_be s 10)),
        (''cur_gps'', PyInt (u16_be s 12)),
        (''cur_wde'', PyInt (u16_be s 14)),
        (''temp_a'', tenths (s16_be s 16)),
        (''temp_b '', tenths (s16_be s 18))]"

definition sensor_fields :: "bytes \<Rightarrow> pyval" where
  "sensor_fields s =
     PyDict
       [(''timestamp'', PyInt (u32_be s 0)),
        (''cur5v0brd'', PyInt (u16_be s 4)),
        (''cur3v3brd'', PyInt (u16_be s 6)),
        (''cur3v3sd'', PyInt (u16_be s 8)),
        (''cur1v2'', PyInt (u16_be s 10)),
        (''cur2v5'', PyInt (u16_be s 12)),
        (''cur3v3fpga'', PyInt (u16_be s 14)),
        (''cur3v3adc'', PyInt (u16_be s 16)),
        (''last_icao'', PyInt (u32_be s 18)),
        (''last_lat'', PyFloat (f32_be s 22)),
        (''last_lon'', PyFloat (f32_be s 26)),
        (''last_alt'', PyInt (u32_be s 30)),
        (''last_time '', PyInt (u32_be s 34))]"

text \<open>The record of a payload: the five groups, from the slices after the type byte.\<close>

definition beacon_record :: "bytes \<Rightarrow> pyval" where
  "beacon_record p =
     PyDict
       [(''eps'', power_fields (sub_bytes p 1 49)),
        (''com'', comms_fields (sub_bytes p 50 14)),
        (''obc'', computer_fields (sub_bytes p 64 14)),
        (''adcs'', attitude_fields (sub_bytes p 78 20)),
        (''adsb'', sensor_fields (sub_bytes p 98 38))]"

text \<open>Looking a key up in a dictionary, and a field in a group of a record.\<close>

definition get :: "pyval \<Rightarrow> string \<Rightarrow> pyval option" where
  "get d k = (case d of PyDict kvs \<Rightarrow> map_of kvs k | _ \<Rightarrow> None)"

definition get2 :: "pyval \<Rightarrow> string \<Rightarrow> string \<Rightarrow> pyval option" where
  "get2 d g k = (case get d g of None \<Rightarrow> None | Some v \<Rightarrow> get v k)"

definition keys :: "pyval \<Rightarrow> string list" where
  "keys d = (case d of PyDict kvs \<Rightarrow> map fst kvs | _ \<Rightarrow> [])"

text \<open>The shape of a value: its kind, and for a tuple or a dictionary the shapes inside.\<close>

datatype shape = SInt | SFloat | SBytes | STuple "shape list" | SDict "(string \<times> shape) list"

primrec shape_of :: "pyval \<Rightarrow> shape" where
  "shape_of (PyInt i) = SInt"
| "shape_of (PyFloat x) = SFloat"
| "shape_of (PyBytes b) = SBytes"
| "shape_of (PyTuple vs) = STuple (map shape_of vs)"
| "shape_of (PyDict kvs) = SDict (map (map_prod id shape_of) kvs)"

definition record_shape :: shape where
  "record_shape =
     SDict
       [(''eps'', SDict
          [(''timestamp'', SInt), (''vboost'', STuple [SInt, SInt, SInt]), (''vbatt'', SInt),
           (''curout'', STuple [SInt, SInt, SInt, SInt, SInt, SInt, SInt]),
           (''curin'', STuple [SInt, SInt, SInt]), (''cursun'', SInt), (''cursys'', SInt),
           (''temp'', STuple [SInt, SInt, SInt, SInt, SInt, SInt]), (''battmode'', SInt)]),
        (''com'', SDict
          [(''timestamp'', SInt), (''temp_brd'', SFloat), (''temp_pa'', SFloat),
           (''last_rssi'', SInt), (''last_rferr'', SInt), (''bgnd_rssi'', SInt)]),
        (''obc'', SDict
          [(''timestamp'', SInt), (''cur_gssb1'', SInt), (''cur_gssb2'', SInt),
           (''cur_flash'', SInt), (''temp_a'', SFloat), (''temp_b '', SFloat)]),
        (''adcs'', SDict
          [(''timestamp'', SInt), (''cur_gssb1'', SInt), (''cur_gssb2'', SInt),
           (''cur_flash'', SInt), (''cur_pwm'', SInt), (''cur_gps'', SInt),
           (''cur_wde'', SInt), (''temp_a'', SFloat), (''temp_b '', SFloat)]),
        (''adsb'', SDict
          [(''timestamp'', SInt), (''cur5v0brd'', SInt), (''cur3v3brd'', SInt),
           (''cur3v3sd'', SInt), (''cur1v2'', SInt), (''cur2v5'', SInt),
           (''cur3v3fpga'', SInt), (''cur3v3adc'', SInt), (''last_icao'', SInt),
           (''last_lat'', SFloat), (''last_lon'', SFloat), (''last_alt'', SInt),
           (''last_time '', SInt)])]"

text \<open>
  The names of all fields of a record, each with the name of its group, and the test for
  a name that ends in white space (Python's \<^verbatim>\<open>str.isspace\<close> on ASCII).
\<close>

definition field_names :: "pyval \<Rightarrow> (string \<times> string) list" where
  "field_names r =
     (case r of
        PyDict groups \<Rightarrow> concat (map (\<lambda>(g, v). map (Pair g) (keys v)) groups)
      | _ \<Rightarrow> [])"

definition is_space :: "char \<Rightarrow> bool" where
  "is_space c \<longleftrightarrow> c \<in> set [CHR 0x20, CHR 0x09, CHR 0x0A, CHR 0x0B, CHR 0x0C, CHR 0x0D]"

definition trailing_space :: "string \<Rightarrow> bool" where
  "trailing_space k \<longleftrightarrow> k \<noteq> [] \<and> is_space (last k)"

text \<open>The sample frame of the parser's demonstration (140 bytes: no header, a payload and a trailer).\<close>

definition sample :: bytes where
  "sample =
     [0,185,252,252,196,9,64,9,76,9,25,64,207,0,173,0,65,0,4,0,68,0,112,0,0,0,2,0,2,0,3,3,
      158,0,112,0,91,0,28,0,30,0,30,0,29,0,28,0,28,3,185,252,252,196,1,56,1,57,255,197,255,
      149,255,149,185,252,252,196,0,0,0,1,0,0,0,0,1,62,185,252,252,196,0,2,0,7,0,0,0,4,0,14,
      0,0,1,58,1,57,185,252,252,196,0,201,0,40,0,1,0,6,0,22,0,51,0,24,0,68,146,225,66,96,71,
      60,65,28,211,98,0,0,120,255,185,252,252,185,72,180,198,200]"

text \<open>
  A header with source 1, destination 10 and destination port 30 (the word
  \<open>0x02A78000\<close>, least significant byte first), and one with all fields zero.
\<close>

definition good_header :: bytes where
  "good_header = [0, 128, 167, 2]"

definition zero_header :: bytes where
  "zero_header = [0, 0, 0, 0]"

text \<open>A payload of the right length whose type byte is 1.\<close>

definition type1_payload :: bytes where
  "type1_payload = 1 # replicate 135 0"

section \<open>Reading bytes: the struct model against machine words\<close>

lemma from_bytes_BE: "from_bytes BigEndian xs = horner_sum uint 256 (rev xs)"
  by (simp add: from_bytes_def horner_sum_foldr foldl_conv_foldr add.commute mult.commute)

lemma from_bytes_LE: "from_bytes LittleEndian xs = horner_sum uint 256 xs"
  by (simp add: from_bytes_def horner_sum_foldr foldl_conv_foldr add.commute mult.commute)

lemma horner_bytes_bounds:
  "0 \<le> horner_sum uint 256 (xs :: bytes) \<and> horner_sum uint 256 xs < 2 ^ (8 * length xs)"
proof (induction xs)
  case Nil
  show ?case by simp
next
  case (Cons x xs)
  have x: "0 \<le> uint x" "uint x < 256"
    using uint_bounded [of x] by simp_all
  have "(2::int) ^ (8 * length (x # xs)) = 256 * 2 ^ (8 * length xs)"
    by (simp add: power_add)
  with Cons x show ?case by simp
qed

lemma from_bytes_bounds:
  "0 \<le> from_bytes bo xs" "from_bytes bo xs < 2 ^ (8 * length xs)"
  using horner_bytes_bounds [of xs] horner_bytes_bounds [of "rev xs"]
  by (cases bo; simp add: from_bytes_BE from_bytes_LE)+

lemma uint_word_rcat:
  assumes "8 * length xs \<le> LENGTH('b)"
  shows "uint (word_rcat (xs :: bytes) :: 'b::len word) = from_bytes BigEndian xs"
proof -
  have "from_bytes BigEndian xs < 2 ^ LENGTH('b)"
    using from_bytes_bounds(2) [of BigEndian xs] assms
    by (meson order_less_le_trans one_le_numeral power_increasing)
  then show ?thesis
    using from_bytes_bounds(1) [of BigEndian xs]
    by (simp add: word_rcat_def from_bytes_BE uint_word_of_int take_bit_eq_mod)
qed

lemma uint_word_rcat_rev:
  assumes "8 * length xs \<le> LENGTH('b)"
  shows "uint (word_rcat (rev (xs :: bytes)) :: 'b::len word) = from_bytes LittleEndian xs"
  using uint_word_rcat [of "rev xs", where 'b='b] assms
  by (simp add: from_bytes_BE from_bytes_LE)

lemma wrap16:
  fixes v :: int
  assumes "0 \<le> v" "v < 65536"
  shows "(v + 32768) mod 65536 - 32768 = (if 32768 \<le> v then v - 65536 else v)"
proof (cases "32768 \<le> v")
  case True
  have e: "v + 32768 = (v - 32768) + 65536"
    by simp
  have "(v + 32768) mod 65536 = (v - 32768) mod 65536"
    by (subst e) (rule mod_add_self2)
  also have "\<dots> = v - 32768"
    using True assms by simp
  finally show ?thesis using True by simp
next
  case False
  then have "(v + 32768) mod 65536 = v + 32768"
    using assms by simp
  then show ?thesis using False by simp
qed

lemma sint_word_rcat:
  assumes "length xs = 2"
  shows "sint (word_rcat (xs :: bytes) :: 16 word) = to_signed 2 (from_bytes BigEndian xs)"
proof -
  have u: "uint (word_rcat xs :: 16 word) = from_bytes BigEndian xs"
    using assms by (simp add: uint_word_rcat)
  have b: "0 \<le> from_bytes BigEndian xs" "from_bytes BigEndian xs < 65536"
    using from_bytes_bounds [of BigEndian xs] assms by simp_all
  have "sint (word_rcat xs :: 16 word) = signed_take_bit 15 (from_bytes BigEndian xs)"
    using u by (simp add: sint_uint)
  also have "\<dots> = (from_bytes BigEndian xs + 32768) mod 65536 - 32768"
    by (simp add: signed_take_bit_eq_take_bit_shift take_bit_eq_mod)
  also have "\<dots> = to_signed 2 (from_bytes BigEndian xs)"
    using wrap16 [OF b] by (simp add: to_signed_def)
  finally show ?thesis .
qed

section \<open>Rounding to a double is exact on small integers\<close>

lemma pow2_pos: "0 < pow2 k"
  by (simp add: pow2_def)

lemma round_half_even_int: "round_half_even (of_int m) = m"
  by (simp add: round_half_even_def)

lemma floor_log2_int:
  assumes "0 < k"
  shows "floor_log2 (of_int k) = bitlen k - 1"
proof -
  have b: "2 ^ nat (bitlen k - 1) \<le> k"
    using bitlen_bounds [OF assms] by simp
  have n: "1 \<le> bitlen k"
    using assms bitlen_eq_zero_iff [of k] bitlen_nonneg [of k] by linarith
  have "(2 :: rat) ^ nat (bitlen k - 1) = of_int (2 ^ nat (bitlen k - 1))"
    by simp
  also have "\<dots> \<le> of_int k"
    using b by (simp only: of_int_le_iff)
  finally have "pow2 (bitlen k - 1) \<le> of_int k"
    using n by (simp add: pow2_def)
  moreover have "bitlen 1 = 1"
    by (simp add: compute_bitlen)
  ultimately show ?thesis
    by (simp add: floor_log2_def Let_def)
qed

lemma to_double_int:
  assumes "\<bar>k\<bar> < 2 ^ 53"
  shows "to_double (of_int k) = Finite (of_int k)"
proof (cases "k = 0")
  case True
  then show ?thesis by (simp add: to_double_def)
next
  case False
  define a where "a = \<bar>k\<bar>"
  have a: "0 < a" "a < 2 ^ 53"
    using False assms by (simp_all add: a_def)
  define e where "e = bitlen a - 1"
  have e0: "0 \<le> e"
    using a(1) bitlen_eq_zero_iff [of a] bitlen_nonneg [of a] by (simp add: e_def)
  have "2 ^ nat (bitlen a - 1) \<le> a"
    using bitlen_bounds [OF a(1)] by simp
  then have "(2 :: int) ^ nat e < 2 ^ 53"
    using a(2) by (simp add: e_def)
  then have "nat e < 53"
    by (rule power_less_imp_less_exp [rotated]) simp
  then have e52: "e \<le> 52"
    by simp
  have fl: "floor_log2 (of_int a) = e"
    using a(1) by (simp add: floor_log2_int e_def)
  have ulp: "pow2 (e - 52) = 1 / 2 ^ nat (52 - e)"
    using e52 by (cases "e = 52") (simp_all add: pow2_def)
  have q: "of_int a / pow2 (e - 52) = of_int (a * 2 ^ nat (52 - e))"
    by (simp add: ulp)
  have v: "of_int (round_half_even (of_int a / pow2 (e - 52))) * pow2 (e - 52) = (of_int a :: rat)"
    unfolding q round_half_even_int by (simp add: ulp)
  have abs: "\<bar>of_int k :: rat\<bar> = of_int a"
    by (simp add: a_def)
  have m: "max e (- 1022) = e"
    using e0 by simp
  show ?thesis
    using False e52
    by (simp add: to_double_def Let_def abs fl m v) (simp add: a_def)
qed

lemma to_signed_2_bounds:
  assumes "length xs = 2"
  shows "\<bar>to_signed 2 (from_bytes bo xs)\<bar> < 2 ^ 53"
proof -
  have "0 \<le> from_bytes bo xs" "from_bytes bo xs < 65536"
    using from_bytes_bounds [of bo xs] assms by simp_all
  then show ?thesis
    by (simp add: to_signed_def)
qed

lemma truediv10_small:
  assumes "\<bar>x\<bar> < 2 ^ 53"
  shows "truediv10 (PyInt x) = Inr (tenths x)"
  using to_double_int [OF assms] by (simp add: truediv10_def div_float_def tenths_def)

lemma truediv10_s16:
  assumes "length xs = 2"
  shows "truediv10 (PyInt (to_signed 2 (from_bytes bo xs))) =
           Inr (tenths (to_signed 2 (from_bytes bo xs)))"
  using to_signed_2_bounds [OF assms] by (rule truediv10_small)

section \<open>The format strings of the parser\<close>

lemma fmt_csp: "parse_format ''<I'' = Some (LittleEndian, [U32])"
  by code_simp

lemma fmt_top: "parse_format ''<B49s14s14s20s38s'' = Some (LittleEndian, [U8, Str 49, Str 14, Str 14, Str 20, Str 38])"
  by code_simp

lemma fmt_eps: "parse_format ''>I16H6hB'' = Some (BigEndian,
  [U32, U16, U16, U16, U16, U16, U16, U16, U16, U16, U16, U16, U16, U16, U16, U16, U16,
   S16, S16, S16, S16, S16, S16, U8])"
  by code_simp

lemma fmt_com: "parse_format ''>I5h'' = Some (BigEndian, [U32, S16, S16, S16, S16, S16])"
  by code_simp

lemma fmt_obc: "parse_format ''>I3H2h'' = Some (BigEndian, [U32, U16, U16, U16, S16, S16])"
  by code_simp

lemma fmt_adcs: "parse_format ''>I6H2h'' = Some (BigEndian, [U32, U16, U16, U16, U16, U16, U16, S16, S16])"
  by code_simp

lemma fmt_adsb: "parse_format ''>I7HI2f2I'' = Some (BigEndian,
  [U32, U16, U16, U16, U16, U16, U16, U16, U32, F32, F32, U32, U32])"
  by code_simp

lemma u16_be_unpack:
  "off + 2 \<le> length s \<Longrightarrow> u16_be s off = from_bytes BigEndian (take 2 (drop off s))"
  by (simp add: u16_be_def sub_bytes_def uint_word_rcat)

lemma s16_be_unpack:
  "off + 2 \<le> length s \<Longrightarrow> s16_be s off = to_signed 2 (from_bytes BigEndian (take 2 (drop off s)))"
  by (simp add: s16_be_def sub_bytes_def sint_word_rcat)

lemma u32_be_unpack:
  "off + 4 \<le> length s \<Longrightarrow> u32_be s off = from_bytes BigEndian (take 4 (drop off s))"
  by (simp add: u32_be_def sub_bytes_def uint_word_rcat)

lemma u8_at_unpack:
  "off < length s \<Longrightarrow> u8_at s off = from_bytes bo (take 1 (drop off s))"
  by (cases bo) (simp_all add: u8_at_def from_bytes_def take_Suc_conv_app_nth hd_drop_conv_nth take_Suc)

lemmas unpack_readers = u16_be_unpack s16_be_unpack u32_be_unpack u8_at_unpack [where bo = BigEndian]

lemma com_group_eq:
  assumes "length s = 14"
  shows "com_group (PyBytes s) = Inr (comms_fields s)"
  using assms
  by (simp add: com_group_def unpack_def fmt_com calcsize_def bind_def truediv10_s16
      comms_fields_def unpack_readers)

lemma obc_group_eq:
  assumes "length s = 14"
  shows "obc_group (PyBytes s) = Inr (computer_fields s)"
  using assms
  by (simp add: obc_group_def unpack_def fmt_obc calcsize_def bind_def truediv10_s16
      computer_fields_def unpack_readers)

lemma adcs_group_eq:
  assumes "length s = 20"
  shows "adcs_group (PyBytes s) = Inr (attitude_fields s)"
  using assms
  by (simp add: adcs_group_def unpack_def fmt_adcs calcsize_def bind_def truediv10_s16
      attitude_fields_def unpack_readers)

lemma adsb_group_eq:
  assumes "length s = 38"
  shows "adsb_group (PyBytes s) = Inr (sensor_fields s)"
  using assms
  by (simp add: adsb_group_def unpack_def fmt_adsb calcsize_def bind_def
      sensor_fields_def f32_be_def unpack_readers)

lemma upt_16: "[0..<16] = [0, 1, 2, 3, 4, 5, 6, 7, 8, 9, 10, 11, 12, 13, 14, 15 :: nat]"
  by code_simp

lemma upt_6: "[0..<6] = [0, 1, 2, 3, 4, 5 :: nat]"
  by code_simp

lemma eps_group_eq:
  assumes "length s = 49"
  shows "eps_group (PyBytes s) = Inr (power_fields s)"
  using assms
  by (simp add: eps_group_def unpack_def fmt_eps calcsize_def bind_def
      power_fields_def Let_def upt_16 upt_6 unpack_readers)


lemma and_mask_5: "(k :: int) AND 0x1f = take_bit 5 k"
  by (simp add: take_bit_eq_mask mask_eq_exp_minus_1)

lemma and_mask_6: "(k :: int) AND 0x3f = take_bit 6 k"
  by (simp add: take_bit_eq_mask mask_eq_exp_minus_1)

lemma int_bits: "int (bits w lo hi) = take_bit (hi + 1 - lo) (drop_bit lo (uint w))"
  by (simp only: bits_def flip: uint_nat) (simp add: unsigned_take_bit_eq unsigned_drop_bit_eq bintr_uint)

lemma uint_header_word:
  "4 \<le> length data \<Longrightarrow> uint (header_word data) = from_bytes LittleEndian (take 4 data)"
  by (simp add: header_word_def sub_bytes_def uint_word_rcat_rev)

lemma split_csp_off: "split_csp data False = Inr data"
  by (simp add: split_csp_def)

lemma split_csp_short:
  "length data < 4 \<Longrightarrow> split_csp data True = Inl StructError"
  by (simp add: split_csp_def unpack_def fmt_csp calcsize_def)

lemma routing_fields_int:
  "routing_fields data = (1, 10, 30) \<longleftrightarrow>
     int (bits (header_word data) 25 29) = 1 \<and> int (bits (header_word data) 20 24) = 10 \<and>
     int (bits (header_word data) 14 19) = 30"
  unfolding routing_fields_def by (simp only: prod.inject) auto

lemma split_csp_long:
  assumes "4 \<le> length data"
  shows "split_csp data True =
     (if routing_fields data = (1, 10, 30) then Inr (drop 4 data) else Inl RoutingMismatch)"
  using assms
  by (simp add: split_csp_def unpack_def fmt_csp calcsize_def Let_def and_mask_5 and_mask_6
      routing_fields_int int_bits uint_header_word RoutingMismatch_def
      BEACON0_SOURCE_def BEACON0_DEST_def BEACON0_DPORT_def del: One_nat_def)

lemma unpack_top:
  assumes "length p = 136"
  shows "unpack ''<B49s14s14s20s38s'' (PyBytes p) =
     Inr [PyInt (u8_at p 0), PyBytes (sub_bytes p 1 49), PyBytes (sub_bytes p 50 14),
          PyBytes (sub_bytes p 64 14), PyBytes (sub_bytes p 78 20), PyBytes (sub_bytes p 98 38)]"
  using assms
  by (simp add: unpack_def fmt_top calcsize_def sub_bytes_def u8_at_unpack [where bo = LittleEndian])

lemma init_payload:
  assumes "length p = 136"
  shows "bind (unpack ''<B49s14s14s20s38s'' (PyBytes p)) (\<lambda>vs.
           case vs of
             [btype, eps, com, obc, adcs, adsb] \<Rightarrow>
               if btype \<noteq> PyInt 0 then Inl (TypeError ''Unknown beacon type'')
               else
                 bind (eps_group eps) (\<lambda>d_eps.
                 bind (com_group com) (\<lambda>d_com.
                 bind (obc_group obc) (\<lambda>d_obc.
                 bind (adcs_group adcs) (\<lambda>d_adcs.
                 bind (adsb_group adsb) (\<lambda>d_adsb.
                   Inr \<lparr>beacon =
                     AList.update ''adsb'' d_adsb
                       (AList.update ''adcs'' d_adcs
                         (AList.update ''obc'' d_obc
                           (AList.update ''com'' d_com
                             (AList.update ''eps'' d_eps [])))) \<rparr>)))))
           | _ \<Rightarrow> Inl ValueError) =
         (if p ! 0 \<noteq> 0 then Inl UnsupportedType
          else Inr \<lparr>beacon = [(''eps'', power_fields (sub_bytes p 1 49)),
                               (''com'', comms_fields (sub_bytes p 50 14)),
                               (''obc'', computer_fields (sub_bytes p 64 14)),
                               (''adcs'', attitude_fields (sub_bytes p 78 20)),
                               (''adsb'', sensor_fields (sub_bytes p 98 38))]\<rparr>)"
proof -
  have len: "length (sub_bytes p 1 49) = 49" "length (sub_bytes p 50 14) = 14"
    "length (sub_bytes p 64 14) = 14" "length (sub_bytes p 78 20) = 20" "length (sub_bytes p 98 38) = 38"
    using assms by (simp_all add: sub_bytes_def)
  show ?thesis
    by (simp add: unpack_top [OF assms] bind_def u8_at_def UnsupportedType_def uint_0_iff
        eps_group_eq [OF len(1)] com_group_eq [OF len(2)] obc_group_eq [OF len(3)]
        adcs_group_eq [OF len(4)] adsb_group_eq [OF len(5)] del: One_nat_def)
qed

lemma init_eq:
  "Beacon0_init data csp crc =
     (if csp \<and> length data < 4 then Inl StructError
      else if csp \<and> routing_fields data \<noteq> (1, 10, 30) then Inl RoutingMismatch
      else if length (payload data csp crc) \<noteq> 136 then Inl LengthMismatch
      else if payload data csp crc ! 0 \<noteq> 0 then Inl UnsupportedType
      else Inr \<lparr>beacon = [(''eps'', power_fields (sub_bytes (payload data csp crc) 1 49)),
                           (''com'', comms_fields (sub_bytes (payload data csp crc) 50 14)),
                           (''obc'', computer_fields (sub_bytes (payload data csp crc) 64 14)),
                           (''adcs'', attitude_fields (sub_bytes (payload data csp crc) 78 20)),
                           (''adsb'', sensor_fields (sub_bytes (payload data csp crc) 98 38))]\<rparr>)"
proof (cases csp)
  case False
  have p: "payload data csp crc = strip_crc data crc"
    using False by (simp add: payload_def strip_crc_def)
  show ?thesis
  proof (cases "length (strip_crc data crc) = 136")
    case True
    show ?thesis
      unfolding Beacon0_init_def p
      using False True
      by (simp add: split_csp_off bind_def [of "Inr data"] Let_def BEACON0_LENGTH_def
          init_payload [OF True])
  next
    case ne: False
    show ?thesis
      unfolding Beacon0_init_def p
      using False ne
      by (simp add: split_csp_off bind_def [of "Inr data"] Let_def BEACON0_LENGTH_def
          LengthMismatch_def)
  qed
next
  case csp: True
  have p: "payload data csp crc = strip_crc (drop 4 data) crc"
    using csp by (simp add: payload_def strip_crc_def)
  show ?thesis
  proof (cases "length data < 4")
    case True
    then show ?thesis
      unfolding Beacon0_init_def using csp by (simp add: split_csp_short bind_def)
  next
    case long: False
    then have l: "4 \<le> length data" by simp
    show ?thesis
    proof (cases "routing_fields data = (1, 10, 30)")
      case False
      then show ?thesis
        unfolding Beacon0_init_def using csp long
        by (simp add: split_csp_long [OF l] bind_def)
    next
      case ok: True
      show ?thesis
      proof (cases "length (strip_crc (drop 4 data) crc) = 136")
        case True
        show ?thesis
          unfolding Beacon0_init_def p
          using csp long ok True
          by (simp add: split_csp_long [OF l] bind_def [of "Inr (drop 4 data)"] Let_def
              BEACON0_LENGTH_def init_payload [OF True])
      next
        case ne: False
        show ?thesis
          unfolding Beacon0_init_def p
          using csp long ok ne
          by (simp add: split_csp_long [OF l] bind_def [of "Inr (drop 4 data)"] Let_def
              BEACON0_LENGTH_def LengthMismatch_def)
      qed
    qed
  qed
qed

lemma decode_eq:
  "decode data csp crc =
     (if csp \<and> length data < 4 then Inl StructError
      else if csp \<and> routing_fields data \<noteq> (1, 10, 30) then Inl RoutingMismatch
      else if length (payload data csp crc) \<noteq> 136 then Inl LengthMismatch
      else if payload data csp crc ! 0 \<noteq> 0 then Inl UnsupportedType
      else Inr (beacon_record (payload data csp crc)))"
  unfolding decode_def init_eq
  by (simp add: bind_def fields_def beacon_record_def)


section \<open>The outcome of decoding\<close>

lemma typed_errors_distinct:
  "RoutingMismatch \<noteq> LengthMismatch" "RoutingMismatch \<noteq> UnsupportedType"
  "LengthMismatch \<noteq> UnsupportedType" "RoutingMismatch \<noteq> StructError"
  "LengthMismatch \<noteq> StructError" "UnsupportedType \<noteq> StructError"
  "LengthMismatch \<noteq> RoutingMismatch" "UnsupportedType \<noteq> RoutingMismatch"
  "UnsupportedType \<noteq> LengthMismatch" "StructError \<noteq> RoutingMismatch"
  "StructError \<noteq> LengthMismatch" "StructError \<noteq> UnsupportedType"
  by (simp_all add: RoutingMismatch_def LengthMismatch_def UnsupportedType_def)

lemma payload_136_long:
  assumes "length (payload data True crc) = 136"
  shows "4 \<le> length data"
proof (rule ccontr)
  assume "\<not> 4 \<le> length data"
  then have "payload data True crc = []"
    by (simp add: payload_def)
  with assms show False by simp
qed

lemma shape_of_record: "shape_of (beacon_record p) = record_shape"
  by (simp add: beacon_record_def record_shape_def power_fields_def comms_fields_def
      computer_fields_def attitude_fields_def sensor_fields_def tenths_def Let_def upt_16 upt_6)

lemma decode_ok:
  assumes "csp \<longrightarrow> routing_fields data = (1, 10, 30)"
    and "length (payload data csp crc) = 136"
    and "payload data csp crc ! 0 = 0"
  shows "decode data csp crc = Inr (beacon_record (payload data csp crc))"
proof -
  have "csp \<longrightarrow> 4 \<le> length data"
    using assms(2) payload_136_long [of data crc] by (cases csp) simp_all
  with assms show ?thesis
    by (auto simp add: decode_eq)
qed

lemma decode_Inr:
  assumes "decode data csp crc = Inr r"
  shows "r = beacon_record (payload data csp crc)" and "length (payload data csp crc) = 136"
    and "payload data csp crc ! 0 = 0"
  using assms by (simp_all add: decode_eq split: if_splits)

lemma decode_wrong_length:
  assumes "csp \<longrightarrow> 4 \<le> length data \<and> routing_fields data = (1, 10, 30)"
    and "length (payload data csp crc) \<noteq> 136"
  shows "decode data csp crc = Inl LengthMismatch"
  using assms by (auto simp add: decode_eq)

lemma decode_wrong_type:
  assumes "csp \<longrightarrow> routing_fields data = (1, 10, 30)"
    and "length (payload data csp crc) = 136"
    and "payload data csp crc ! 0 \<noteq> 0"
  shows "decode data csp crc = Inl UnsupportedType"
proof -
  have "csp \<longrightarrow> 4 \<le> length data"
    using assms(2) payload_136_long [of data crc] by (cases csp) simp_all
  with assms show ?thesis
    by (auto simp add: decode_eq)
qed

lemma decode_wrong_routing:
  assumes "4 \<le> length data" and "routing_fields data \<noteq> (1, 10, 30)"
  shows "decode data True crc = Inl RoutingMismatch"
  using assms by (simp add: decode_eq)

lemma decode_short:
  assumes "length data < 4"
  shows "decode data True crc = Inl StructError"
  using assms by (simp add: decode_eq)

lemma sub_bytes_nested:
  assumes "off + k \<le> n"
  shows "sub_bytes (sub_bytes p base n) off k = sub_bytes p (base + off) k"
  using assms by (simp add: sub_bytes_def drop_take min_def add.commute)

lemma s16_be_nested:
  "off + 2 \<le> n \<Longrightarrow> s16_be (sub_bytes p base n) off = s16_be p (base + off)"
  by (simp add: s16_be_def sub_bytes_nested)

lemma u32_be_nested:
  "off + 4 \<le> n \<Longrightarrow> u32_be (sub_bytes p base n) off = u32_be p (base + off)"
  by (simp add: u32_be_def sub_bytes_nested)

lemma get2_comms:
  "get2 (beacon_record p) ''com'' k = get (comms_fields (sub_bytes p 50 14)) k"
  by (simp add: get2_def get_def beacon_record_def)

lemma get2_computer:
  "get2 (beacon_record p) ''obc'' k = get (computer_fields (sub_bytes p 64 14)) k"
  by (simp add: get2_def get_def beacon_record_def)

lemma get2_attitude:
  "get2 (beacon_record p) ''adcs'' k = get (attitude_fields (sub_bytes p 78 20)) k"
  by (simp add: get2_def get_def beacon_record_def)

lemma get2_sensor:
  "get2 (beacon_record p) ''adsb'' k = get (sensor_fields (sub_bytes p 98 38)) k"
  by (simp add: get2_def get_def beacon_record_def)

lemma decode_sample: "decode sample False True = Inr (beacon_record (payload sample False True))"
proof -
  have "length (payload sample False True) = 136" "payload sample False True ! 0 = 0"
    by code_simp+
  then show ?thesis
    by (simp add: decode_ok)
qed

lemma power_fields_explicit:
  "power_fields s =
     PyDict
       [(''timestamp'', PyInt (u32_be s 0)),
        (''vboost'', PyTuple [PyInt (u16_be s 4), PyInt (u16_be s 6), PyInt (u16_be s 8)]),
        (''vbatt'', PyInt (u16_be s 10)),
        (''curout'', PyTuple [PyInt (u16_be s 12), PyInt (u16_be s 14), PyInt (u16_be s 16),
           PyInt (u16_be s 18), PyInt (u16_be s 20), PyInt (u16_be s 22), PyInt (u16_be s 24)]),
        (''curin'', PyTuple [PyInt (u16_be s 26), PyInt (u16_be s 28), PyInt (u16_be s 30)]),
        (''cursun'', PyInt (u16_be s 32)),
        (''cursys'', PyInt (u16_be s 34)),
        (''temp'', PyTuple [PyInt (s16_be s 36), PyInt (s16_be s 38), PyInt (s16_be s 40),
           PyInt (s16_be s 42), PyInt (s16_be s 44), PyInt (s16_be s 46)]),
        (''battmode'', PyInt (u8_at s 48))]"
  by (simp add: power_fields_def Let_def upt_16 upt_6)

lemma header_word_bytes:
  assumes "4 \<le> length data"
  shows "uint (header_word data) =
           uint (data ! 0) + 256 * uint (data ! 1) + 65536 * uint (data ! 2)
             + 16777216 * uint (data ! 3)"
proof -
  obtain a b c d rest where data: "data = a # b # c # d # rest"
    using assms by (cases data rule: list.exhaust; simp)
      (metis Suc_le_length_iff numeral_3_eq_3 One_nat_def Suc_1)
  have "uint (header_word data) = from_bytes LittleEndian (take 4 data)"
    using assms by (rule uint_header_word)
  also have "\<dots> = uint (data ! 0) + 256 * uint (data ! 1) + 65536 * uint (data ! 2)
             + 16777216 * uint (data ! 3)"
    unfolding data by (simp add: from_bytes_def)
  finally show ?thesis .
qed

lemma field_names_record:
  "field_names (beacon_record p) =
     [(''eps'', ''timestamp''), (''eps'', ''vboost''), (''eps'', ''vbatt''),
      (''eps'', ''curout''), (''eps'', ''curin''), (''eps'', ''cursun''),
      (''eps'', ''cursys''), (''eps'', ''temp''), (''eps'', ''battmode''),
      (''com'', ''timestamp''), (''com'', ''temp_brd''), (''com'', ''temp_pa''),
      (''com'', ''last_rssi''), (''com'', ''last_rferr''), (''com'', ''bgnd_rssi''),
      (''obc'', ''timestamp''), (''obc'', ''cur_gssb1''), (''obc'', ''cur_gssb2''),
      (''obc'', ''cur_flash''), (''obc'', ''temp_a''), (''obc'', ''temp_b ''),
      (''adcs'', ''timestamp''), (''adcs'', ''cur_gssb1''), (''adcs'', ''cur_gssb2''),
      (''adcs'', ''cur_flash''), (''adcs'', ''cur_pwm''), (''adcs'', ''cur_gps''),
      (''adcs'', ''cur_wde''), (''adcs'', ''temp_a''), (''adcs'', ''temp_b ''),
      (''adsb'', ''timestamp''), (''adsb'', ''cur5v0brd''), (''adsb'', ''cur3v3brd''),
      (''adsb'', ''cur3v3sd''), (''adsb'', ''cur1v2''), (''adsb'', ''cur2v5''),
      (''adsb'', ''cur3v3fpga''), (''adsb'', ''cur3v3adc''), (''adsb'', ''last_icao''),
      (''adsb'', ''last_lat''), (''adsb'', ''last_lon''), (''adsb'', ''last_alt''),
      (''adsb'', ''last_time '')]"
  by (simp add: field_names_def beacon_record_def keys_def power_fields_explicit
      comms_fields_def computer_fields_def attitude_fields_def sensor_fields_def)

lemma spaced_names:
  "filter (\<lambda>(g, k). trailing_space k) (field_names (beacon_record p)) =
     [(''obc'', ''temp_b ''), (''adcs'', ''temp_b ''), (''adsb'', ''last_time '')]"
  unfolding field_names_record by (simp add: trailing_space_def is_space_def)

lemma spaced_groups: "filter trailing_space (keys (beacon_record p)) = []"
  by (simp add: beacon_record_def keys_def trailing_space_def is_space_def)

lemma header_word_take:
  assumes "length d1 = length d2" and "take (length d1 - 4) d1 = take (length d2 - 4) d2"
    and "8 \<le> length d1"
  shows "routing_fields d1 = routing_fields d2"
proof -
  have n: "4 \<le> length d1 - 4" "4 \<le> length d2 - 4"
    using assms(1,3) by simp_all
  have "take 4 (take (length d1 - 4) d1) = take 4 (take (length d2 - 4) d2)"
    using assms(2) by simp
  then have "take 4 d1 = take 4 d2"
    using n by (simp add: min_absorb1)
  then show ?thesis
    by (simp add: routing_fields_def header_word_def sub_bytes_def)
qed

lemma payload_trailer_long:
  assumes "length d1 = length d2" and "take (length d1 - 4) d1 = take (length d2 - 4) d2"
  shows "payload d1 True True = payload d2 True True"
proof -
  have "payload d True True = drop 4 (take (length d - 4) d)" for d :: bytes
    by (simp add: payload_def drop_take)
  then show ?thesis
    using assms by simp
qed

lemma payload_trailer_plain:
  assumes "take (length d1 - 4) d1 = take (length d2 - 4) d2"
  shows "payload d1 False True = payload d2 False True"
  using assms by (simp add: payload_def)

lemma s16_be_small: "\<bar>s16_be s off\<bar> < 2 ^ 53"
proof -
  have "- (2 ^ 15) \<le> sint (word_rcat (sub_bytes s off 2) :: 16 word)"
    "sint (word_rcat (sub_bytes s off 2) :: 16 word) < 2 ^ 15"
    using sint_ge [of "word_rcat (sub_bytes s off 2) :: 16 word"]
      sint_lt [of "word_rcat (sub_bytes s off 2) :: 16 word"] by simp_all
  then show ?thesis
    by (simp add: s16_be_def)
qed

lemma truediv10_wire: "truediv10 (PyInt (s16_be s off)) = Inr (tenths (s16_be s off))"
  using s16_be_small by (rule truediv10_small)

lemma truediv10_235: "truediv10 (PyInt 235) = Inr (PyFloat (Finite (47 / 2)))"
  by code_simp

lemma payload_append_trailer:
  assumes "length t = 4" and "csp \<longrightarrow> 4 \<le> length d"
  shows "payload (d @ t) csp True = payload d csp False"
  using assms by (cases csp) (simp_all add: payload_def)

lemma routing_fields_append:
  assumes "4 \<le> length d"
  shows "routing_fields (d @ t) = routing_fields d"
  using assms by (simp add: routing_fields_def header_word_def sub_bytes_def)

lemma decode_append_trailer:
  assumes "length t = 4" and "csp \<longrightarrow> 4 \<le> length d"
  shows "decode (d @ t) csp True = decode d csp False"
proof (cases csp)
  case False
  then show ?thesis
    using payload_append_trailer [OF assms] by (simp add: decode_eq)
next
  case True
  then have l: "4 \<le> length d"
    using assms(2) by simp
  show ?thesis
    using True l payload_append_trailer [OF assms] routing_fields_append [OF l, of t]
    by (simp add: decode_eq)
qed

lemma decode_same_trailer:
  assumes "length d1 = length d2"
    and "take (length d1 - 4) d1 = take (length d2 - 4) d2"
    and "csp \<longrightarrow> length d1 < 4 \<or> 8 \<le> length d1"
  shows "decode d1 csp True = decode d2 csp True"
proof (cases csp)
  case False
  then show ?thesis
    using payload_trailer_plain [OF assms(2)] by (simp add: decode_eq)
next
  case True
  note p = payload_trailer_long [OF assms(1,2)]
  from True assms(3) consider "length d1 < 4" | "8 \<le> length d1"
    by blast
  then show ?thesis
  proof cases
    case 1
    then show ?thesis
      using True assms(1) by (simp add: decode_eq)
  next
    case 2
    have "routing_fields d1 = routing_fields d2"
      using assms(1,2) 2 by (rule header_word_take)
    then show ?thesis
      using True assms(1) p by (simp add: decode_eq)
  qed
qed

section \<open>The claims\<close>

text \<open>
  Claim C1. Whenever the payload that remains after the configured header (whose routing
  fields are 1, 10 and 30) and the configured trailer are removed has exactly 136 bytes
  and starts with the byte 0, decoding succeeds. The record has exactly the five groups
  \<open>eps\<close>, \<open>com\<close>, \<open>obc\<close>, \<open>adcs\<close> and \<open>adsb\<close>, read from the slices of 49, 14, 14, 20
  and 38 bytes that follow the type byte, and every group has the field names and the
  shapes of \<open>record_shape\<close>.
\<close>

theorem decode_well_formed:
  assumes "csp \<longrightarrow> routing_fields data = (1, 10, 30)"
    and "length (payload data csp crc) = 136"
    and "payload data csp crc ! 0 = 0"
  shows "decode data csp crc =
           Inr (PyDict
             [(''eps'', power_fields (sub_bytes (payload data csp crc) 1 49)),
              (''com'', comms_fields (sub_bytes (payload data csp crc) 50 14)),
              (''obc'', computer_fields (sub_bytes (payload data csp crc) 64 14)),
              (''adcs'', attitude_fields (sub_bytes (payload data csp crc) 78 20)),
              (''adsb'', sensor_fields (sub_bytes (payload data csp crc) 98 38))])
         \<and> map_sum id shape_of (decode data csp crc) = Inr record_shape
         \<and> map_sum id keys (decode data csp crc) = Inr [''eps'', ''com'', ''obc'', ''adcs'', ''adsb'']
         \<and> map length
              [sub_bytes (payload data csp crc) 1 49, sub_bytes (payload data csp crc) 50 14,
               sub_bytes (payload data csp crc) 64 14, sub_bytes (payload data csp crc) 78 20,
               sub_bytes (payload data csp crc) 98 38] = [49, 14, 14, 20, 38]"
proof -
  have d: "decode data csp crc = Inr (beacon_record (payload data csp crc))"
    using assms by (rule decode_ok)
  have k: "keys (beacon_record (payload data csp crc)) = [''eps'', ''com'', ''obc'', ''adcs'', ''adsb'']"
    by (simp add: beacon_record_def keys_def)
  have l: "map length
              [sub_bytes (payload data csp crc) 1 49, sub_bytes (payload data csp crc) 50 14,
               sub_bytes (payload data csp crc) 64 14, sub_bytes (payload data csp crc) 78 20,
               sub_bytes (payload data csp crc) 98 38] = [49, 14, 14, 20, 38]"
    using assms(2) by (simp add: sub_bytes_def)
  show ?thesis
    unfolding d using k l by (simp add: shape_of_record) (simp add: beacon_record_def)
qed

theorem decode_well_formed_witness:
  "routing_fields (good_header @ sample) = (1, 10, 30)
   \<and> length (payload (good_header @ sample) True True) = 136
   \<and> payload (good_header @ sample) True True ! 0 = 0
   \<and> map_sum id shape_of (decode (good_header @ sample) True True) = Inr record_shape
   \<and> map_sum id keys (decode (good_header @ sample) True True) =
       Inr [''eps'', ''com'', ''obc'', ''adcs'', ''adsb'']"
proof -
  have h1: "True \<longrightarrow> routing_fields (good_header @ sample) = (1, 10, 30)"
    by code_simp
  have h2: "length (payload (good_header @ sample) True True) = 136"
    by code_simp
  have h3: "payload (good_header @ sample) True True ! 0 = 0"
    by code_simp
  note w = decode_well_formed [OF h1 h2 h3]
  from h1 have h1': "routing_fields (good_header @ sample) = (1, 10, 30)"
    by (rule mp) (rule TrueI)
  show ?thesis
    using h1' h2 h3 w [THEN conjunct2, THEN conjunct1]
      w [THEN conjunct2, THEN conjunct2, THEN conjunct1]
    by (intro conjI)
qed

text \<open>
  Claim C2. When the header, if one is configured, passes the routing check, and what
  remains after the configured header and trailer are removed is not exactly 136 bytes
  long, decoding fails with \<open>LengthMismatch\<close>.
\<close>

theorem length_mismatch:
  assumes "csp \<longrightarrow> 4 \<le> length data \<and> routing_fields data = (1, 10, 30)"
    and "length (payload data csp crc) \<noteq> 136"
  shows "decode data csp crc = Inl LengthMismatch"
  using assms by (rule decode_wrong_length)

theorem length_mismatch_witness:
  "4 \<le> length (good_header @ [0, 0, 0]) \<and> routing_fields (good_header @ [0, 0, 0]) = (1, 10, 30)
   \<and> length (payload (good_header @ [0, 0, 0]) True True) \<noteq> 136
   \<and> decode (good_header @ [0, 0, 0]) True True = Inl LengthMismatch
   \<and> length (payload (tl sample) False True) \<noteq> 136
   \<and> decode (tl sample) False True = Inl LengthMismatch"
proof -
  have h1: "4 \<le> length (good_header @ [0, 0, 0]) \<and> routing_fields (good_header @ [0, 0, 0]) = (1, 10, 30)"
    by code_simp
  have h2: "length (payload (good_header @ [0, 0, 0]) True True) \<noteq> 136"
    by code_simp
  have h3: "length (payload (tl sample) False True) \<noteq> 136"
    by code_simp
  have a: "decode (good_header @ [0, 0, 0]) True True = Inl LengthMismatch"
    using length_mismatch [of True "good_header @ [0, 0, 0]" True] h1 h2 by blast
  have b: "decode (tl sample) False True = Inl LengthMismatch"
    using length_mismatch [of False "tl sample" True] h3 by blast
  show ?thesis
    using h1 h2 h3 a b by blast
qed

text \<open>
  Claim C3 says that every payload whose first byte is not 0 fails with
  \<open>UnsupportedType\<close>. The type byte is the last of the three checks: a payload of 136
  bytes with type byte 1 behind a header with the wrong routing fields fails with
  \<open>RoutingMismatch\<close>, and the one-byte payload 1 fails with \<open>LengthMismatch\<close>.
\<close>

theorem unsupported_type_counterexample:
  "payload (zero_header @ type1_payload) True False ! 0 = 1
   \<and> length (payload (zero_header @ type1_payload) True False) = 136
   \<and> decode (zero_header @ type1_payload) True False = Inl RoutingMismatch
   \<and> payload [1] False False ! 0 = 1
   \<and> decode [1] False False = Inl LengthMismatch
   \<and> RoutingMismatch \<noteq> UnsupportedType \<and> LengthMismatch \<noteq> UnsupportedType"
  by code_simp

text \<open>
  Claim C3, amended. When the header, if one is configured, passes the routing check and
  the payload that remains after the configured header and trailer are removed has
  exactly 136 bytes, of which the first is not 0, decoding fails with
  \<open>UnsupportedType\<close>.
\<close>

theorem unsupported_type:
  assumes "csp \<longrightarrow> routing_fields data = (1, 10, 30)"
    and "length (payload data csp crc) = 136"
    and "payload data csp crc ! 0 \<noteq> 0"
  shows "decode data csp crc = Inl UnsupportedType"
  using assms by (rule decode_wrong_type)

theorem unsupported_type_witness:
  "routing_fields (good_header @ type1_payload) = (1, 10, 30)
   \<and> length (payload (good_header @ type1_payload) True False) = 136
   \<and> payload (good_header @ type1_payload) True False ! 0 \<noteq> 0
   \<and> decode (good_header @ type1_payload) True False = Inl UnsupportedType"
proof -
  have h1: "routing_fields (good_header @ type1_payload) = (1, 10, 30)"
    by code_simp
  have h2: "length (payload (good_header @ type1_payload) True False) = 136"
    by code_simp
  have h3: "payload (good_header @ type1_payload) True False ! 0 \<noteq> 0"
    by code_simp
  have "decode (good_header @ type1_payload) True False = Inl UnsupportedType"
    using unsupported_type [of True "good_header @ type1_payload" False] h1 h2 h3 by blast
  with h1 h2 h3 show ?thesis
    by (intro conjI)
qed

text \<open>
  Claim C4. With the header flag set, the first four bytes of the input are read as an
  unsigned 32-bit word, least significant byte first, and decoding fails with
  \<open>RoutingMismatch\<close> exactly when the source (bits 25 to 29), the destination (bits 20
  to 24) and the destination port (bits 14 to 19) of that word are not 1, 10 and 30.
  An input of fewer than four bytes has no such word; claim C9 is about it.
\<close>

theorem routing_mismatch_iff:
  assumes "4 \<le> length data"
  shows "uint (header_word data) =
           uint (data ! 0) + 256 * uint (data ! 1) + 65536 * uint (data ! 2)
             + 16777216 * uint (data ! 3)
    \<and> (decode data True crc = Inl RoutingMismatch \<longleftrightarrow>
           (bits (header_word data) 25 29, bits (header_word data) 20 24,
            bits (header_word data) 14 19) \<noteq> (1, 10, 30))"
  using assms typed_errors_distinct header_word_bytes [OF assms]
  by (simp add: decode_eq routing_fields_def)

theorem routing_mismatch_iff_witness:
  "4 \<le> length (zero_header @ sample)
   \<and> decode (zero_header @ sample) True True = Inl RoutingMismatch
   \<and> (bits (header_word (zero_header @ sample)) 25 29, bits (header_word (zero_header @ sample)) 20 24,
            bits (header_word (zero_header @ sample)) 14 19) = (0, 0, 0)
   \<and> 4 \<le> length (good_header @ sample)
   \<and> decode (good_header @ sample) True True \<noteq> Inl RoutingMismatch
   \<and> (bits (header_word (good_header @ sample)) 25 29, bits (header_word (good_header @ sample)) 20 24,
            bits (header_word (good_header @ sample)) 14 19) = (1, 10, 30)"
proof -
  have l1: "4 \<le> length (zero_header @ sample)" and l2: "4 \<le> length (good_header @ sample)"
    by (simp_all add: zero_header_def good_header_def)
  have f1: "(bits (header_word (zero_header @ sample)) 25 29, bits (header_word (zero_header @ sample)) 20 24,
            bits (header_word (zero_header @ sample)) 14 19) = (0, 0, 0)"
    by code_simp
  have f2: "(bits (header_word (good_header @ sample)) 25 29, bits (header_word (good_header @ sample)) 20 24,
            bits (header_word (good_header @ sample)) 14 19) = (1, 10, 30)"
    by code_simp
  have a: "decode (zero_header @ sample) True True = Inl RoutingMismatch"
    using routing_mismatch_iff [OF l1, of True, THEN conjunct2] f1 by simp
  have b: "decode (good_header @ sample) True True \<noteq> Inl RoutingMismatch"
    using routing_mismatch_iff [OF l2, of True, THEN conjunct2] f2 by simp
  show ?thesis
    using l1 l2 f1 f2 a b by (intro conjI)
qed

text \<open>
  Claim C5. In every successfully decoded frame the temperatures \<open>temp_brd\<close> and
  \<open>temp_pa\<close> of the comms group and the two temperatures of the onboard-computer group
  and of the attitude-control group are the signed 16-bit big-endian values at the payload
  offsets 54, 56, 74, 76, 94 and 96, divided by the float ten: each field is what
  \<^verbatim>\<open>raw / 10.0\<close> returns on its wire value, which is the double nearest to a tenth of
  that value. The raw value 235 gives 23.5.
\<close>

theorem temperatures_in_tenths:
  assumes "decode data csp crc = Inr r"
  shows "map_option Inr (get2 r ''com'' ''temp_brd'') =
           Some (truediv10 (PyInt (s16_be (payload data csp crc) 54)))
    \<and> map_option Inr (get2 r ''com'' ''temp_pa'') =
           Some (truediv10 (PyInt (s16_be (payload data csp crc) 56)))
    \<and> map_option Inr (get2 r ''obc'' ''temp_a'') =
           Some (truediv10 (PyInt (s16_be (payload data csp crc) 74)))
    \<and> map_option Inr (get2 r ''obc'' ''temp_b '') =
           Some (truediv10 (PyInt (s16_be (payload data csp crc) 76)))
    \<and> map_option Inr (get2 r ''adcs'' ''temp_a'') =
           Some (truediv10 (PyInt (s16_be (payload data csp crc) 94)))
    \<and> map_option Inr (get2 r ''adcs'' ''temp_b '') =
           Some (truediv10 (PyInt (s16_be (payload data csp crc) 96)))
    \<and> get2 r ''com'' ''temp_brd'' =
           Some (PyFloat (to_double (of_int (s16_be (payload data csp crc) 54) / 10)))
    \<and> get2 r ''com'' ''temp_pa'' =
           Some (PyFloat (to_double (of_int (s16_be (payload data csp crc) 56) / 10)))
    \<and> get2 r ''obc'' ''temp_a'' =
           Some (PyFloat (to_double (of_int (s16_be (payload data csp crc) 74) / 10)))
    \<and> get2 r ''obc'' ''temp_b '' =
           Some (PyFloat (to_double (of_int (s16_be (payload data csp crc) 76) / 10)))
    \<and> get2 r ''adcs'' ''temp_a'' =
           Some (PyFloat (to_double (of_int (s16_be (payload data csp crc) 94) / 10)))
    \<and> get2 r ''adcs'' ''temp_b '' =
           Some (PyFloat (to_double (of_int (s16_be (payload data csp crc) 96) / 10)))
    \<and> truediv10 (PyInt 235) = Inr (PyFloat (Finite (47 / 2)))"
proof -
  have r: "r = beacon_record (payload data csp crc)"
    using assms by (rule decode_Inr)
  have g: "get2 r ''com'' ''temp_brd'' = Some (tenths (s16_be (payload data csp crc) 54))"
    "get2 r ''com'' ''temp_pa'' = Some (tenths (s16_be (payload data csp crc) 56))"
    "get2 r ''obc'' ''temp_a'' = Some (tenths (s16_be (payload data csp crc) 74))"
    "get2 r ''obc'' ''temp_b '' = Some (tenths (s16_be (payload data csp crc) 76))"
    "get2 r ''adcs'' ''temp_a'' = Some (tenths (s16_be (payload data csp crc) 94))"
    "get2 r ''adcs'' ''temp_b '' = Some (tenths (s16_be (payload data csp crc) 96))"
    unfolding r get2_comms get2_computer get2_attitude
    by (simp_all add: comms_fields_def computer_fields_def attitude_fields_def get_def
        s16_be_nested)
  show ?thesis
    unfolding g truediv10_wire using truediv10_235 by (simp add: tenths_def)
qed

theorem temperatures_in_tenths_witness:
  "decode sample False True = Inr (beacon_record (payload sample False True))
   \<and> s16_be (payload sample False True) 54 = 312
   \<and> get2 (beacon_record (payload sample False True)) ''com'' ''temp_brd'' =
        Some (PyFloat (Finite (8782019273372467 / 281474976710656)))
   \<and> s16_be (payload sample False True) 96 = 313
   \<and> get2 (beacon_record (payload sample False True)) ''adcs'' ''temp_b '' =
        Some (PyFloat (Finite (8810166771043533 / 281474976710656)))
   \<and> s16_be (payload sample False True) 74 = 0
   \<and> get2 (beacon_record (payload sample False True)) ''obc'' ''temp_a'' =
        Some (PyFloat (Finite 0))"
proof -
  note t = temperatures_in_tenths [OF decode_sample]
  have v: "s16_be (payload sample False True) 54 = 312" "s16_be (payload sample False True) 96 = 313"
    "s16_be (payload sample False True) 74 = 0"
    by code_simp+
  have d: "to_double (312 / 10) = Finite (8782019273372467 / 281474976710656)"
    "to_double (313 / 10) = Finite (8810166771043533 / 281474976710656)"
    "to_double (0 / 10) = Finite 0"
    by code_simp+
  have a: "get2 (beacon_record (payload sample False True)) ''com'' ''temp_brd'' =
        Some (PyFloat (Finite (8782019273372467 / 281474976710656)))"
    using t v(1) d(1) by simp
  have b: "get2 (beacon_record (payload sample False True)) ''adcs'' ''temp_b '' =
        Some (PyFloat (Finite (8810166771043533 / 281474976710656)))"
    using t v(2) d(2) by simp
  have c: "get2 (beacon_record (payload sample False True)) ''obc'' ''temp_a'' =
        Some (PyFloat (Finite 0))"
    using t v(3) d(3) by simp
  show ?thesis
    using decode_sample v a b c by (intro conjI)
qed

text \<open>
  Claim C6. In every successfully decoded frame the power group is read from its slice
  of 49 bytes, all big-endian: an unsigned 32-bit timestamp; sixteen unsigned 16-bit
  values, in order three boost-converter voltages, the battery voltage, seven output
  currents, three input currents, the sun-sensor current and the system current; six
  signed 16-bit temperatures, not scaled; and the battery mode, one unsigned byte.
\<close>

theorem power_group_layout:
  assumes "decode data csp crc = Inr r"
  shows "length (sub_bytes (payload data csp crc) 1 49) = 49
    \<and> get r ''eps'' = Some (power_fields (sub_bytes (payload data csp crc) 1 49))
    \<and> power_fields (sub_bytes (payload data csp crc) 1 49) =
        (let s = sub_bytes (payload data csp crc) 1 49 in
         PyDict
          [(''timestamp'', PyInt (u32_be s 0)),
           (''vboost'', PyTuple [PyInt (u16_be s 4), PyInt (u16_be s 6), PyInt (u16_be s 8)]),
           (''vbatt'', PyInt (u16_be s 10)),
           (''curout'', PyTuple [PyInt (u16_be s 12), PyInt (u16_be s 14), PyInt (u16_be s 16),
              PyInt (u16_be s 18), PyInt (u16_be s 20), PyInt (u16_be s 22), PyInt (u16_be s 24)]),
           (''curin'', PyTuple [PyInt (u16_be s 26), PyInt (u16_be s 28), PyInt (u16_be s 30)]),
           (''cursun'', PyInt (u16_be s 32)),
           (''cursys'', PyInt (u16_be s 34)),
           (''temp'', PyTuple [PyInt (s16_be s 36), PyInt (s16_be s 38), PyInt (s16_be s 40),
              PyInt (s16_be s 42), PyInt (s16_be s 44), PyInt (s16_be s 46)]),
           (''battmode'', PyInt (u8_at s 48))])"
proof -
  have r: "r = beacon_record (payload data csp crc)"
    and l: "length (payload data csp crc) = 136"
    using assms by (rule decode_Inr)+
  have a: "length (sub_bytes (payload data csp crc) 1 49) = 49"
    using l by (simp add: sub_bytes_def)
  have b: "get r ''eps'' = Some (power_fields (sub_bytes (payload data csp crc) 1 49))"
    unfolding r by (simp add: get_def beacon_record_def)
  show ?thesis
    using a b by (simp add: Let_def power_fields_explicit del: One_nat_def)
qed

theorem power_group_layout_witness:
  "decode sample False True = Inr (beacon_record (payload sample False True))
   \<and> get (beacon_record (payload sample False True)) ''eps'' =
      Some (PyDict
        [(''timestamp'', PyInt 3120364740),
         (''vboost'', PyTuple [PyInt 2368, PyInt 2380, PyInt 2329]),
         (''vbatt'', PyInt 16591),
         (''curout'', PyTuple [PyInt 173, PyInt 65, PyInt 4, PyInt 68, PyInt 112, PyInt 0, PyInt 2]),
         (''curin'', PyTuple [PyInt 2, PyInt 3, PyInt 926]),
         (''cursun'', PyInt 112),
         (''cursys'', PyInt 91),
         (''temp'', PyTuple [PyInt 28, PyInt 30, PyInt 30, PyInt 29, PyInt 28, PyInt 28]),
         (''battmode'', PyInt 3)])"
proof -
  note t = power_group_layout [OF decode_sample]
  have v: "power_fields (sub_bytes (payload sample False True) 1 49) =
      PyDict
        [(''timestamp'', PyInt 3120364740),
         (''vboost'', PyTuple [PyInt 2368, PyInt 2380, PyInt 2329]),
         (''vbatt'', PyInt 16591),
         (''curout'', PyTuple [PyInt 173, PyInt 65, PyInt 4, PyInt 68, PyInt 112, PyInt 0, PyInt 2]),
         (''curin'', PyTuple [PyInt 2, PyInt 3, PyInt 926]),
         (''cursun'', PyInt 112),
         (''cursys'', PyInt 91),
         (''temp'', PyTuple [PyInt 28, PyInt 30, PyInt 30, PyInt 29, PyInt 28, PyInt 28]),
         (''battmode'', PyInt 3)]"
    by code_simp
  show ?thesis
    using decode_sample t [THEN conjunct2, THEN conjunct1] unfolding v by (intro conjI)
qed

text \<open>
  Claim C7 says that two inputs of the same length that differ in their last four bytes
  only decode to the same outcome when the trailer flag is set. With the header flag set
  and an input of four bytes, the last four bytes are the header: the header with the
  expected routing fields fails with \<open>LengthMismatch\<close>, the all-zero header with
  \<open>RoutingMismatch\<close>.
\<close>

theorem trailer_ignored_counterexample:
  "length good_header = length zero_header
   \<and> take (length good_header - 4) good_header = take (length zero_header - 4) zero_header
   \<and> decode good_header True True = Inl LengthMismatch
   \<and> decode zero_header True True = Inl RoutingMismatch
   \<and> LengthMismatch \<noteq> RoutingMismatch"
  by code_simp

text \<open>
  Claim C7, amended. With the trailer flag set, decoding removes exactly the last four
  bytes and does not look at them: an input \<open>d\<close> followed by any four bytes decodes to
  the outcome that \<open>d\<close> alone has with the trailer flag clear, provided that \<open>d\<close>
  holds the four header bytes when the header flag is set. Hence two inputs of the same
  length that differ in their last four bytes only decode to the same outcome (the same
  record or the same error), provided that, when the header flag is set, the input has
  at least eight bytes, so that the last four are not part of the header, or fewer than
  four.
\<close>

theorem trailer_ignored:
  "(length t = 4 \<and> (csp \<longrightarrow> 4 \<le> length d)
      \<longrightarrow> decode (d @ t) csp True = decode d csp False)
   \<and> (length d1 = length d2 \<and> take (length d1 - 4) d1 = take (length d2 - 4) d2
        \<and> (csp \<longrightarrow> length d1 < 4 \<or> 8 \<le> length d1)
      \<longrightarrow> decode d1 csp True = decode d2 csp True)"
  using decode_append_trailer [of t csp d] decode_same_trailer [of d1 d2 csp]
  by blast

theorem trailer_ignored_witness:
  "length [72, 180, 198, 200 :: byte] = 4
   \<and> sample = take 136 sample @ [72, 180, 198, 200]
   \<and> decode (take 136 sample @ [72, 180, 198, 200]) False True = decode (take 136 sample) False False
   \<and> decode (take 136 sample) False False = Inr (beacon_record (take 136 sample))
   \<and> 4 \<le> length (good_header @ take 136 sample)
   \<and> decode ((good_header @ take 136 sample) @ [1, 2, 3, 4]) True True
        = decode (good_header @ take 136 sample) True False
   \<and> decode (good_header @ take 136 sample) True False = Inr (beacon_record (take 136 sample))
   \<and> decode (take 135 sample @ [1, 2, 3, 4]) False True = Inl LengthMismatch
   \<and> decode (take 135 sample) False False = Inl LengthMismatch
   \<and> length (good_header @ sample) = length (good_header @ take 136 sample @ [1, 2, 3, 4])
   \<and> 8 \<le> length (good_header @ sample)
   \<and> good_header @ sample \<noteq> good_header @ take 136 sample @ [1, 2, 3, 4]
   \<and> decode (good_header @ sample) True True =
       decode (good_header @ take 136 sample @ [1, 2, 3, 4]) True True"
proof -
  have l: "length [72, 180, 198, 200 :: byte] = 4" and l': "length [1, 2, 3, 4 :: byte] = 4"
    by simp_all
  have s: "sample = take 136 sample @ [72, 180, 198, 200]"
    by code_simp
  have h: "4 \<le> length (good_header @ take 136 sample)"
    by code_simp
  have a: "decode (take 136 sample @ [72, 180, 198, 200]) False True = decode (take 136 sample) False False"
    using trailer_ignored [of "[72, 180, 198, 200]" False "take 136 sample"] l by blast
  have b: "decode ((good_header @ take 136 sample) @ [1, 2, 3, 4]) True True
        = decode (good_header @ take 136 sample) True False"
    using trailer_ignored [of "[1, 2, 3, 4]" True "good_header @ take 136 sample"] l' h by blast
  have c: "decode (take 135 sample @ [1, 2, 3, 4]) False True = decode (take 135 sample) False False"
    using trailer_ignored [of "[1, 2, 3, 4]" False "take 135 sample"] l' by blast
  have r: "decode (take 136 sample) False False = Inr (beacon_record (take 136 sample))"
    "decode (good_header @ take 136 sample) True False = Inr (beacon_record (take 136 sample))"
    "decode (take 135 sample) False False = Inl LengthMismatch"
    by code_simp+
  have e: "length (good_header @ sample) = length (good_header @ take 136 sample @ [1, 2, 3, 4])"
    "take (length (good_header @ sample) - 4) (good_header @ sample) =
       take (length (good_header @ take 136 sample @ [1, 2, 3, 4]) - 4)
         (good_header @ take 136 sample @ [1, 2, 3, 4])"
    "8 \<le> length (good_header @ sample)"
    "good_header @ sample \<noteq> good_header @ take 136 sample @ [1, 2, 3, 4]"
    by code_simp+
  have f: "decode (good_header @ sample) True True =
       decode (good_header @ take 136 sample @ [1, 2, 3, 4]) True True"
    using trailer_ignored [of _ True _ "good_header @ sample"
        "good_header @ take 136 sample @ [1, 2, 3, 4]"] e(1,2,3)
    by blast
  show ?thesis
    using l s a r(1) h b r(2) c r(3) e(1,3,4) f by (intro conjI) simp_all
qed

text \<open>
  Claim C8. The checks come in a fixed order. A header whose routing fields are not
  1, 10 and 30 fails with \<open>RoutingMismatch\<close>, whatever the length and the type byte of
  the payload; after the routing check, a payload of the wrong length fails with
  \<open>LengthMismatch\<close>, whatever its first byte; and only a payload of 136 bytes whose first
  byte is not 0 fails with \<open>UnsupportedType\<close>.
\<close>

theorem validation_order:
  "(4 \<le> length data \<and> routing_fields data \<noteq> (1, 10, 30)
      \<longrightarrow> decode data True crc = Inl RoutingMismatch)
   \<and> ((csp \<longrightarrow> 4 \<le> length data \<and> routing_fields data = (1, 10, 30))
        \<and> length (payload data csp crc) \<noteq> 136
      \<longrightarrow> decode data csp crc = Inl LengthMismatch)
   \<and> ((csp \<longrightarrow> 4 \<le> length data \<and> routing_fields data = (1, 10, 30))
        \<and> length (payload data csp crc) = 136 \<and> payload data csp crc ! 0 \<noteq> 0
      \<longrightarrow> decode data csp crc = Inl UnsupportedType)"
  using decode_wrong_routing [of data crc] decode_wrong_length [of csp data crc]
    decode_wrong_type [of csp data crc]
  by blast

theorem validation_order_witness:
  "4 \<le> length (zero_header @ [1, 2]) \<and> routing_fields (zero_header @ [1, 2]) \<noteq> (1, 10, 30)
   \<and> length (payload (zero_header @ [1, 2]) True False) \<noteq> 136
   \<and> payload (zero_header @ [1, 2]) True False ! 0 \<noteq> 0
   \<and> decode (zero_header @ [1, 2]) True False = Inl RoutingMismatch
   \<and> 4 \<le> length (good_header @ [1, 2]) \<and> routing_fields (good_header @ [1, 2]) = (1, 10, 30)
   \<and> length (payload (good_header @ [1, 2]) True False) \<noteq> 136
   \<and> payload (good_header @ [1, 2]) True False ! 0 \<noteq> 0
   \<and> decode (good_header @ [1, 2]) True False = Inl LengthMismatch
   \<and> length (payload (good_header @ type1_payload) True False) = 136
   \<and> decode (good_header @ type1_payload) True False = Inl UnsupportedType"
proof -
  have z: "4 \<le> length (zero_header @ [1, 2])" "routing_fields (zero_header @ [1, 2]) \<noteq> (1, 10, 30)"
    "length (payload (zero_header @ [1, 2]) True False) \<noteq> 136"
    "payload (zero_header @ [1, 2]) True False ! 0 \<noteq> 0"
    by code_simp+
  have g: "4 \<le> length (good_header @ [1, 2])" "routing_fields (good_header @ [1, 2]) = (1, 10, 30)"
    "length (payload (good_header @ [1, 2]) True False) \<noteq> 136"
    "payload (good_header @ [1, 2]) True False ! 0 \<noteq> 0"
    by code_simp+
  have t: "4 \<le> length (good_header @ type1_payload)"
    "routing_fields (good_header @ type1_payload) = (1, 10, 30)"
    "length (payload (good_header @ type1_payload) True False) = 136"
    "payload (good_header @ type1_payload) True False ! 0 \<noteq> 0"
    by code_simp+
  have a: "decode (zero_header @ [1, 2]) True False = Inl RoutingMismatch"
    using validation_order [of "zero_header @ [1, 2]" False True] z by blast
  have b: "decode (good_header @ [1, 2]) True False = Inl LengthMismatch"
    using validation_order [of "good_header @ [1, 2]" False True] g by blast
  have c: "decode (good_header @ type1_payload) True False = Inl UnsupportedType"
    using validation_order [of "good_header @ type1_payload" False True] t by blast
  show ?thesis
    using z g t(3) a b c by (intro conjI)
qed

text \<open>
  Claim C9. With the header flag set, an input of fewer than four bytes fails with the
  error of \<^verbatim>\<open>struct.unpack\<close>, which is none of the three typed failures.
\<close>

theorem short_header_raw_error:
  assumes "length data < 4"
  shows "decode data True crc = Inl StructError
         \<and> StructError \<noteq> RoutingMismatch \<and> StructError \<noteq> LengthMismatch
         \<and> StructError \<noteq> UnsupportedType"
  using assms typed_errors_distinct by (simp add: decode_short)

theorem short_header_raw_error_witness:
  "length [0, 128, 167 :: byte] < 4 \<and> decode [0, 128, 167] True True = Inl StructError
   \<and> decode [] True False = Inl StructError"
proof -
  have h: "length [0, 128, 167 :: byte] < 4" by simp
  have e: "length ([] :: bytes) < 4" by simp
  show ?thesis
    using short_header_raw_error [OF h, of True] short_header_raw_error [OF e, of False] h
    by simp
qed

text \<open>
  Claim C10. In every successfully decoded record the names that end in white space are
  exactly \<open>temp_b \<close> in the onboard-computer group and in the attitude-control group,
  and \<open>last_time \<close> in the auxiliary-sensor group. They hold the second temperature of
  their group and the time of the last detection, and the names without the space are
  not defined.
\<close>

theorem names_with_trailing_space:
  assumes "decode data csp crc = Inr r"
  shows "filter (\<lambda>(g, k). trailing_space k) (field_names r) =
           [(''obc'', ''temp_b ''), (''adcs'', ''temp_b ''), (''adsb'', ''last_time '')]
    \<and> filter trailing_space (keys r) = []
    \<and> get2 r ''obc'' ''temp_b '' = Some (tenths (s16_be (payload data csp crc) 76))
    \<and> get2 r ''adcs'' ''temp_b '' = Some (tenths (s16_be (payload data csp crc) 96))
    \<and> get2 r ''adsb'' ''last_time '' = Some (PyInt (u32_be (payload data csp crc) 132))
    \<and> get2 r ''obc'' ''temp_b'' = None
    \<and> get2 r ''adcs'' ''temp_b'' = None
    \<and> get2 r ''adsb'' ''last_time'' = None"
proof -
  have r: "r = beacon_record (payload data csp crc)"
    using assms by (rule decode_Inr)
  have v: "get2 r ''obc'' ''temp_b '' = Some (tenths (s16_be (payload data csp crc) 76))"
    "get2 r ''adcs'' ''temp_b '' = Some (tenths (s16_be (payload data csp crc) 96))"
    "get2 r ''adsb'' ''last_time '' = Some (PyInt (u32_be (payload data csp crc) 132))"
    "get2 r ''obc'' ''temp_b'' = None"
    "get2 r ''adcs'' ''temp_b'' = None"
    "get2 r ''adsb'' ''last_time'' = None"
    unfolding r get2_computer get2_attitude get2_sensor
    by (simp_all add: computer_fields_def attitude_fields_def sensor_fields_def get_def
        s16_be_nested u32_be_nested)
  show ?thesis
    using v spaced_names [of "payload data csp crc"] spaced_groups [of "payload data csp crc"]
    unfolding r by (intro conjI)
qed

theorem names_with_trailing_space_witness:
  "decode sample False True = Inr (beacon_record (payload sample False True))
   \<and> filter (\<lambda>(g, k). trailing_space k) (field_names (beacon_record (payload sample False True))) =
           [(''obc'', ''temp_b ''), (''adcs'', ''temp_b ''), (''adsb'', ''last_time '')]
   \<and> get2 (beacon_record (payload sample False True)) ''adsb'' ''last_time '' = Some (PyInt 3120364729)
   \<and> get2 (beacon_record (payload sample False True)) ''adsb'' ''last_time'' = None"
proof -
  note t = names_with_trailing_space [OF decode_sample]
  have v: "u32_be (payload sample False True) 132 = 3120364729"
    by code_simp
  have a: "get2 (beacon_record (payload sample False True)) ''adsb'' ''last_time '' = Some (PyInt 3120364729)"
    using t [THEN conjunct2, THEN conjunct2, THEN conjunct2, THEN conjunct2, THEN conjunct1]
    by (simp add: v)
  have b: "get2 (beacon_record (payload sample False True)) ''adsb'' ''last_time'' = None"
    using t by blast
  show ?thesis
    using decode_sample t [THEN conjunct1] a b by (intro conjI)
qed

end
